theory Spec2Isabelle
  imports Main "HOL-Library.Sublist"
begin

section \<open>Effects of the two scripts\<close>

text \<open>
  Both scripts are straight-line sequences of calls into an external library and of
  \<^verbatim>\<open>print\<close> statements. A program is modelled as a function on the log of what has
  happened so far: it returns the extended log together with either the exception that left
  the program (\<open>Inl\<close>) or its value (\<open>Inr\<close>). The external library is a parameter: it
  fixes, for each call the script can make, whether the call returns or raises.

  What is raised is either an instance of Python's \<^verbatim>\<open>Exception\<close> (\<open>Exn\<close>) or a
  \<^verbatim>\<open>BaseException\<close> outside \<^verbatim>\<open>Exception\<close> (\<open>Base_exception\<close>: \<^verbatim>\<open>KeyboardInterrupt\<close>,
  \<^verbatim>\<open>SystemExit\<close>, \<^verbatim>\<open>CancelledError\<close>); \<^verbatim>\<open>str(e)\<close> is its message. \<^verbatim>\<open>print\<close> itself
  always returns.
\<close>

datatype exn = Exn (message: string) | Base_exception (message: string)

fun is_Exception :: "exn \<Rightarrow> bool" where
  "is_Exception (Exn m) = True"
| "is_Exception (Base_exception m) = False"

type_synonym ('ev, 'a) prog = "'ev list \<Rightarrow> (exn + 'a) \<times> 'ev list"

definition ret :: "'a \<Rightarrow> ('ev, 'a) prog" where
  "ret x t = (Inr x, t)"

definition emit :: "'ev \<Rightarrow> ('ev, unit) prog" where
  "emit ev t = (Inr (), t @ [ev])"

text \<open>Sequencing: an exception of the first statement skips the rest.\<close>

definition bind_prog :: "('ev, 'a) prog \<Rightarrow> ('a \<Rightarrow> ('ev, 'b) prog) \<Rightarrow> ('ev, 'b) prog" where
  "bind_prog p f t = (case p t of (Inl e, t') \<Rightarrow> (Inl e, t') | (Inr x, t') \<Rightarrow> f x t')"

definition then_prog :: "('ev, unit) prog \<Rightarrow> ('ev, 'b) prog \<Rightarrow> ('ev, 'b) prog" where
  "then_prog p q = bind_prog p (\<lambda>_. q)"

text \<open>
  \<^verbatim>\<open>try: body  except Exception as e: handler\<close>: the handler runs when the body raises
  an instance of \<^verbatim>\<open>Exception\<close>; anything else the body raises passes the handler, and an
  exception of the handler itself propagates.
\<close>

definition try_except :: "('ev, 'a) prog \<Rightarrow> (exn \<Rightarrow> ('ev, 'a) prog) \<Rightarrow> ('ev, 'a) prog" where
  "try_except body handler t =
     (case body t of
        (Inl e, t') \<Rightarrow> (if is_Exception e then handler e t' else (Inl e, t'))
      | (Inr x, t') \<Rightarrow> (Inr x, t'))"

text \<open>
  \<^verbatim>\<open>try: body  finally: cleanup\<close>: the cleanup runs however the body ends; when the
  cleanup raises, its exception replaces the outcome of the body.
\<close>

definition try_finally :: "('ev, 'a) prog \<Rightarrow> ('ev, unit) prog \<Rightarrow> ('ev, 'a) prog" where
  "try_finally body cleanup t =
     (case body t of (r, t') \<Rightarrow>
        (case cleanup t' of (Inl e, t'') \<Rightarrow> (Inl e, t'') | (Inr _, t'') \<Rightarrow> (r, t'')))"

text \<open>
  The interpreter's exit status: 0 when the script runs to its end, and non-zero when an
  exception leaves the top level of the script: 1 for an uncaught \<^verbatim>\<open>Exception\<close>, which
  here also stands for the non-zero status of the other uncaught exceptions.
\<close>

definition exit_status :: "(exn + 'a) \<Rightarrow> int" where
  "exit_status r = (case r of Inl e \<Rightarrow> 1 | Inr x \<Rightarrow> 0)"

section \<open>Script A: \<^verbatim>\<open>avantis_sdk_ping.py\<close>\<close>

text \<open>
  The SDK as the script uses it: the constructor \<^verbatim>\<open>TraderClient(provider_url)\<close>, which
  returns a client or raises, and \<^verbatim>\<open>client.pairs_cache.get_pairs_info()\<close>, which raises
  or returns a mapping. The mapping is the list of its items in iteration order, which is
  what \<^verbatim>\<open>list(pairs.items())\<close> reads.
\<close>

record ('k, 'v) sdk =
  trader_client :: "string \<Rightarrow> exn option"
  get_pairs_info :: "exn + ('k \<times> 'v) list"

datatype ('k, 'v) sdk_event =
    TraderClient_call string "exn option"
  | Get_pairs_info_call "exn option"
  | Print_str string
  | Print_pair 'k 'v

definition provider_url :: string where
  "provider_url = ''https://mainnet.base.org''"

definition header_line :: string where
  "header_line = ''Fetching Avantis perp pairs via SDK...''"

definition new_client :: "('k, 'v) sdk \<Rightarrow> string \<Rightarrow> (('k, 'v) sdk_event, unit) prog" where
  "new_client s url t =
     (case trader_client s url of
        None \<Rightarrow> (Inr (), t @ [TraderClient_call url None])
      | Some e \<Rightarrow> (Inl e, t @ [TraderClient_call url (Some e)]))"

definition fetch_pairs :: "('k, 'v) sdk \<Rightarrow> (('k, 'v) sdk_event, ('k \<times> 'v) list) prog" where
  "fetch_pairs s t =
     (case get_pairs_info s of
        Inr pairs \<Rightarrow> (Inr pairs, t @ [Get_pairs_info_call None])
      | Inl e \<Rightarrow> (Inl e, t @ [Get_pairs_info_call (Some e)]))"

text \<open>The loop \<^verbatim>\<open>for symbol, info in ...: print(symbol, info)\<close>.\<close>

fun print_pairs :: "('k \<times> 'v) list \<Rightarrow> (('k, 'v) sdk_event, unit) prog" where
  "print_pairs [] = ret ()"
| "print_pairs ((symbol, info) # rest) =
     then_prog (emit (Print_pair symbol info)) (print_pairs rest)"

definition main :: "('k, 'v) sdk \<Rightarrow> (('k, 'v) sdk_event, unit) prog" where
  "main s =
     then_prog (new_client s provider_url)
      (then_prog (emit (Print_str header_line))
        (bind_prog (fetch_pairs s) (\<lambda>pairs.
           print_pairs (take 5 pairs))))"

text \<open>\<^verbatim>\<open>asyncio.run(main())\<close> at the top level: exit status and console log of one run.\<close>

definition script_A :: "('k, 'v) sdk \<Rightarrow> int \<times> ('k, 'v) sdk_event list" where
  "script_A s = (case main s [] of (r, t) \<Rightarrow> (exit_status r, t))"

text \<open>The pair lines of a log, in the order they were printed.\<close>

fun pair_lines :: "('k, 'v) sdk_event list \<Rightarrow> ('k \<times> 'v) list" where
  "pair_lines [] = []"
| "pair_lines (Print_pair k v # t) = (k, v) # pair_lines t"
| "pair_lines (TraderClient_call u r # t) = pair_lines t"
| "pair_lines (Get_pairs_info_call r # t) = pair_lines t"
| "pair_lines (Print_str s # t) = pair_lines t"

text \<open>Two SDKs to run the script on: one returns two pairs, one is unreachable.\<close>

definition sdk_two :: "(string, nat) sdk" where
  "sdk_two = \<lparr>trader_client = (\<lambda>url. None),
              get_pairs_info = Inr [(''ETH/USD'', 0), (''BTC/USD'', 1)]\<rparr>"

definition sdk_seven :: "(nat, nat) sdk" where
  "sdk_seven = \<lparr>trader_client = (\<lambda>url. None),
                get_pairs_info = Inr [(0, 10), (1, 11), (2, 12), (3, 13), (4, 14), (5, 15), (6, 16)]\<rparr>"

definition sdk_down :: "(string, nat) sdk" where
  "sdk_down = \<lparr>trader_client = (\<lambda>url. None),
               get_pairs_info = Inl (Exn ''connection refused'')\<rparr>"

section \<open>Script B: \<^verbatim>\<open>jules-scratch/verification/verify_frontend.py\<close>\<close>

text \<open>
  A locator as the script builds it. \<^verbatim>\<open>page.get_by_role(role, name=...)\<close> and
  \<^verbatim>\<open>page.get_by_text(text)\<close> both take a keyword \<^verbatim>\<open>exact\<close>: with \<^verbatim>\<open>exact=True\<close>
  the name or text is matched case-sensitively against the whole string, and without it
  (\<open>None\<close>, the default) the match is case-insensitive and by substring. The last field
  of a locator is that keyword as the call passes it.
\<close>

datatype locator =
    Get_by_role string string "bool option"
  | Get_by_text string "bool option"

text \<open>
  The calls into the browser-automation library, with their arguments: entering and
  leaving \<^verbatim>\<open>with sync_playwright()\<close>, \<^verbatim>\<open>chromium.launch(headless=...)\<close>,
  \<^verbatim>\<open>browser.new_page()\<close>, \<^verbatim>\<open>page.goto(url)\<close>,
  \<^verbatim>\<open>expect(locator).to_be_visible(timeout=ms)\<close>, \<^verbatim>\<open>page.screenshot(path=...)\<close> and
  \<^verbatim>\<open>browser.close()\<close>. Timeouts are in milliseconds.
\<close>

datatype pw_call =
    Sync_playwright_enter
  | Chromium_launch bool
  | New_page
  | Goto string
  | Expect_to_be_visible locator nat
  | Screenshot string
  | Browser_close
  | Sync_playwright_exit

text \<open>
  The library and the frontend behind it: for each call, \<open>None\<close> when it returns and
  \<open>Some e\<close> when it raises \<open>e\<close>. Each call of the script is made at most once in a run,
  so one outcome per call describes a run completely.
\<close>

type_synonym playwright = "pw_call \<Rightarrow> exn option"

datatype pw_event = Call pw_call "exn option" | Print string

definition call :: "playwright \<Rightarrow> pw_call \<Rightarrow> (pw_event, unit) prog" where
  "call pw c t =
     (case pw c of
        None \<Rightarrow> (Inr (), t @ [Call c None])
      | Some e \<Rightarrow> (Inl e, t @ [Call c (Some e)]))"

definition print :: "string \<Rightarrow> (pw_event, unit) prog" where
  "print s = emit (Print s)"

definition frontend_url :: string where
  "frontend_url = ''http://localhost:3000''"

definition heading_locator :: locator where
  "heading_locator = Get_by_role ''heading'' ''DeFi Borrowed Positions'' None"

definition text_locator :: locator where
  "text_locator = Get_by_text ''Total Borrowed (All Chains)'' None"

definition success_path :: string where
  "success_path = ''/app/jules-scratch/verification/verification.png''"

definition error_path :: string where
  "error_path = ''/app/jules-scratch/verification/error.png''"

definition success_message :: string where
  "success_message = ''Screenshot taken successfully.''"

definition error_message :: "exn \<Rightarrow> string" where
  "error_message e = ''An error occurred: '' @ message e"

text \<open>The body of the \<^verbatim>\<open>try\<close>, lines 9 to 20.\<close>

definition try_block :: "playwright \<Rightarrow> (pw_event, unit) prog" where
  "try_block pw =
     then_prog (call pw (Goto frontend_url))
      (then_prog (call pw (Expect_to_be_visible heading_locator 30000))
        (then_prog (call pw (Expect_to_be_visible text_locator 60000))
          (then_prog (call pw (Screenshot success_path))
            (print success_message))))"

text \<open>The handler \<^verbatim>\<open>except Exception as e\<close>, lines 23 and 24.\<close>

definition except_block :: "playwright \<Rightarrow> exn \<Rightarrow> (pw_event, unit) prog" where
  "except_block pw e =
     then_prog (print (error_message e))
      (call pw (Screenshot error_path))"

definition run :: "playwright \<Rightarrow> (pw_event, unit) prog" where
  "run pw =
     then_prog (call pw (Chromium_launch True))
      (then_prog (call pw New_page)
        (try_finally
          (try_except (try_block pw) (except_block pw))
          (call pw Browser_close)))"

text \<open>
  The top level, \<^verbatim>\<open>with sync_playwright() as playwright: run(playwright)\<close>: the context
  is left however \<open>run\<close> ends, and leaving it does not swallow an exception.
\<close>

definition script_B :: "playwright \<Rightarrow> int \<times> pw_event list" where
  "script_B pw =
     (case then_prog (call pw Sync_playwright_enter)
             (try_finally (run pw) (call pw Sync_playwright_exit)) [] of
        (r, t) \<Rightarrow> (exit_status r, t))"

text \<open>
  What a log shows: the outcomes of a call, the lines printed and the visibility
  assertions made.
\<close>

fun outcomes :: "pw_call \<Rightarrow> pw_event list \<Rightarrow> exn option list" where
  "outcomes c [] = []"
| "outcomes c (Call c' r # t) = (if c' = c then r # outcomes c t else outcomes c t)"
| "outcomes c (Print s # t) = outcomes c t"

definition returned :: "pw_call \<Rightarrow> pw_event list \<Rightarrow> bool" where
  "returned c t = (None \<in> set (outcomes c t))"

definition raised :: "pw_call \<Rightarrow> exn \<Rightarrow> pw_event list \<Rightarrow> bool" where
  "raised c e t = (Some e \<in> set (outcomes c t))"

fun printed :: "pw_event list \<Rightarrow> string list" where
  "printed [] = []"
| "printed (Print s # t) = s # printed t"
| "printed (Call c r # t) = printed t"


fun expectations :: "pw_event list \<Rightarrow> (locator \<times> nat) list" where
  "expectations [] = []"
| "expectations (Call (Expect_to_be_visible l ms) r # t) = (l, ms) # expectations t"
| "expectations (ev # t) = expectations t"

text \<open>
  The heading locator in the spec's words, "a heading whose exact accessible name is
  DeFi Borrowed Positions": the same call with exact matching asked for.
\<close>

definition spec_exact_heading_locator :: locator where
  "spec_exact_heading_locator = Get_by_role ''heading'' ''DeFi Borrowed Positions'' (Some True)"

text \<open>Frontends to run the script on.\<close>

definition pw_ok :: playwright where
  "pw_ok = (\<lambda>c. None)"

definition pw_no_heading :: playwright where
  "pw_no_heading = (\<lambda>c. if c = Expect_to_be_visible heading_locator 30000
                         then Some (Exn ''Locator expected to be visible'') else None)"

definition pw_crashed :: playwright where
  "pw_crashed = (\<lambda>c. if c = Goto frontend_url then Some (Exn ''Page crashed'')
                      else if c = Screenshot error_path then Some (Exn ''Target closed'')
                      else None)"


definition pw_interrupted :: playwright where
  "pw_interrupted = (\<lambda>c. if c = Goto frontend_url then Some (Base_exception ''KeyboardInterrupt'')
                          else None)"

definition pw_no_page :: playwright where
  "pw_no_page = (\<lambda>c. if c = New_page then Some (Exn ''Browser has been closed'') else None)"


section \<open>Script A: the log of \<open>main\<close>\<close>

lemma print_pairs_log:
  "print_pairs ps t = (Inr (), t @ map (\<lambda>(k, v). Print_pair k v) ps)"
  by (induction ps arbitrary: t) (auto simp: ret_def then_prog_def bind_prog_def emit_def)

lemma pair_lines_append: "pair_lines (t @ u) = pair_lines t @ pair_lines u"
  by (induction t rule: pair_lines.induct) auto

lemma pair_lines_printed: "pair_lines (map (\<lambda>(k, v). Print_pair k v) ps) = ps"
  by (induction ps) auto

lemma main_fetched:
  assumes "trader_client s provider_url = None" and "get_pairs_info s = Inr pairs"
  shows "main s [] =
           (Inr (), [TraderClient_call provider_url None, Print_str header_line,
                     Get_pairs_info_call None]
                    @ map (\<lambda>(k, v). Print_pair k v) (take 5 pairs))"
  using assms
  by (simp add: main_def then_prog_def bind_prog_def new_client_def emit_def fetch_pairs_def
      print_pairs_log)

lemma main_fetch_raised:
  assumes "trader_client s provider_url = None" and "get_pairs_info s = Inl e"
  shows "main s [] =
           (Inl e, [TraderClient_call provider_url None, Print_str header_line,
                    Get_pairs_info_call (Some e)])"
  using assms
  by (simp add: main_def then_prog_def bind_prog_def new_client_def emit_def fetch_pairs_def)

lemma main_client_raised:
  assumes "trader_client s provider_url = Some e"
  shows "main s [] = (Inl e, [TraderClient_call provider_url (Some e)])"
  using assms
  by (simp add: main_def then_prog_def bind_prog_def new_client_def)

section \<open>Script A: the claims\<close>

text \<open>
  C3. For every pairs mapping the SDK fetch returns, the script prints exactly
  \<open>min n 5\<close> pair lines, \<open>n\<close> being the number of entries of the mapping: the
  first entries in the iteration order of the mapping, with no padding, and it ends without
  an error (exit status 0) also when \<open>n < 5\<close>.
\<close>

theorem prints_first_five_pairs:
  assumes "trader_client s provider_url = None" and "get_pairs_info s = Inr pairs"
  shows "pair_lines (snd (script_A s)) = take 5 pairs
       \<and> length (pair_lines (snd (script_A s))) = min (length pairs) 5
       \<and> fst (script_A s) = 0"
  using main_fetched [OF assms]
  by (simp add: script_A_def exit_status_def pair_lines_append pair_lines_printed min.commute)

theorem prints_first_five_pairs_witness:
  "pair_lines (snd (script_A sdk_two)) = [(''ETH/USD'', 0), (''BTC/USD'', 1)]
   \<and> length (pair_lines (snd (script_A sdk_two))) = 2
   \<and> fst (script_A sdk_two) = 0
   \<and> pair_lines (snd (script_A sdk_seven)) = [(0, 10), (1, 11), (2, 12), (3, 13), (4, 14)]
   \<and> length (pair_lines (snd (script_A sdk_seven))) = 5"
proof -
  have client: "trader_client sdk_two provider_url = None"
    and two: "get_pairs_info sdk_two = Inr [(''ETH/USD'', 0), (''BTC/USD'', 1)]"
    by (simp_all add: sdk_two_def)
  have client': "trader_client sdk_seven provider_url = None"
    and seven: "get_pairs_info sdk_seven =
                  Inr [(0, 10), (1, 11), (2, 12), (3, 13), (4, 14), (5, 15), (6, 16)]"
    by (simp_all add: sdk_seven_def)
  from prints_first_five_pairs [OF client two] prints_first_five_pairs [OF client' seven]
  show ?thesis by simp
qed

text \<open>
  C6. When the SDK fetch raises, the fault leaves \<open>main\<close> as it was raised, after the
  header line and a single fetch attempt (no retry, no handler); the exit status is
  non-zero and no pair line is printed.
\<close>

theorem fetch_fault_propagates:
  assumes "trader_client s provider_url = None" and "get_pairs_info s = Inl e"
  shows "main s [] = (Inl e, [TraderClient_call provider_url None, Print_str header_line,
                              Get_pairs_info_call (Some e)])
       \<and> fst (script_A s) = 1
       \<and> pair_lines (snd (script_A s)) = []"
  using main_fetch_raised [OF assms]
  by (simp add: script_A_def exit_status_def)

theorem fetch_fault_propagates_witness:
  "main sdk_down [] =
     (Inl (Exn ''connection refused''),
      [TraderClient_call provider_url None, Print_str header_line,
       Get_pairs_info_call (Some (Exn ''connection refused''))])
   \<and> fst (script_A sdk_down) = 1
   \<and> pair_lines (snd (script_A sdk_down)) = []"
proof -
  have client: "trader_client sdk_down provider_url = None"
    and down: "get_pairs_info sdk_down = Inl (Exn ''connection refused'')"
    by (simp_all add: sdk_down_def)
  from fetch_fault_propagates [OF client down] show ?thesis .
qed

text \<open>
  C10. The fixed header line \<^verbatim>\<open>Fetching Avantis perp pairs via SDK...\<close> is printed
  before the fetch is issued: in every run that reaches the fetch, the log starts with the
  construction of the client, that header line and the fetch, in that order; this includes
  the runs in which the fetch raises, which print nothing else and exit with status 1.
\<close>

theorem header_printed_before_fetch:
  assumes "Get_pairs_info_call r \<in> set (snd (script_A s))"
  shows "prefix [TraderClient_call ''https://mainnet.base.org'' None,
                 Print_str ''Fetching Avantis perp pairs via SDK...'',
                 Get_pairs_info_call r] (snd (script_A s))
       \<and> (r \<noteq> None \<longrightarrow> fst (script_A s) = 1
            \<and> snd (script_A s) = [TraderClient_call ''https://mainnet.base.org'' None,
                                   Print_str ''Fetching Avantis perp pairs via SDK...'',
                                   Get_pairs_info_call r])"
proof (cases "trader_client s provider_url")
  case (Some e)
  from main_client_raised [OF Some] assms show ?thesis
    by (simp add: script_A_def)
next
  case client: None
  show ?thesis
  proof (cases "get_pairs_info s")
    case (Inl e)
    from main_fetch_raised [OF client Inl] assms show ?thesis
      by (simp add: script_A_def exit_status_def provider_url_def header_line_def)
  next
    case (Inr pairs)
    from main_fetched [OF client Inr] assms show ?thesis
      by (auto simp: script_A_def provider_url_def header_line_def)
  qed
qed

theorem header_printed_before_fetch_witness:
  "Get_pairs_info_call (Some (Exn ''connection refused'')) \<in> set (snd (script_A sdk_down))
   \<and> snd (script_A sdk_down) =
       [TraderClient_call ''https://mainnet.base.org'' None,
        Print_str ''Fetching Avantis perp pairs via SDK...'',
        Get_pairs_info_call (Some (Exn ''connection refused''))]
   \<and> fst (script_A sdk_down) = 1"
proof -
  have fetched: "Get_pairs_info_call (Some (Exn ''connection refused''))
                   \<in> set (snd (script_A sdk_down))"
    by (simp add: script_A_def main_def then_prog_def bind_prog_def new_client_def emit_def
        fetch_pairs_def sdk_down_def)
  from header_printed_before_fetch [OF fetched] show ?thesis by simp
qed

section \<open>Script B: the paths of a run\<close>

lemmas prog_defs = script_B_def run_def try_block_def except_block_def then_prog_def bind_prog_def
  try_finally_def try_except_def call_def print_def emit_def exit_status_def

text \<open>
  A run of Script B follows one of the paths below, fixed by the first call that raises
  and, inside the \<^verbatim>\<open>try\<close>, by whether what it raises is an \<^verbatim>\<open>Exception\<close>. On each
  path the log is known up to the outcomes of the error screenshot, of
  \<^verbatim>\<open>browser.close()\<close> and of leaving the Playwright context.
\<close>

lemma script_B_cases [case_names enter_raised launch_raised new_page_raised
    goto_caught goto_passed heading_caught heading_passed
    text_caught text_passed screenshot_caught screenshot_passed body_returned]:
  obtains
    (enter_raised) e where
      "script_B pw = (1, [Call Sync_playwright_enter (Some e)])"
  | (launch_raised) e where
      "script_B pw = (1, [Call Sync_playwright_enter None, Call (Chromium_launch True) (Some e),
         Call Sync_playwright_exit (pw Sync_playwright_exit)])"
  | (new_page_raised) e where
      "script_B pw = (1, [Call Sync_playwright_enter None, Call (Chromium_launch True) None,
         Call New_page (Some e), Call Sync_playwright_exit (pw Sync_playwright_exit)])"
  | (goto_caught) e where "is_Exception e"
      "script_B pw =
        (if pw (Screenshot error_path) = None \<and> pw Browser_close = None
            \<and> pw Sync_playwright_exit = None then 0 else 1,
         [Call Sync_playwright_enter None, Call (Chromium_launch True) None, Call New_page None,
          Call (Goto frontend_url) (Some e),
          Print (error_message e), Call (Screenshot error_path) (pw (Screenshot error_path)),
          Call Browser_close (pw Browser_close),
          Call Sync_playwright_exit (pw Sync_playwright_exit)])"
  | (goto_passed) e where "\<not> is_Exception e"
      "script_B pw =
        (1,
         [Call Sync_playwright_enter None, Call (Chromium_launch True) None, Call New_page None,
          Call (Goto frontend_url) (Some e),
          Call Browser_close (pw Browser_close),
          Call Sync_playwright_exit (pw Sync_playwright_exit)])"
  | (heading_caught) e where "is_Exception e"
      "script_B pw =
        (if pw (Screenshot error_path) = None \<and> pw Browser_close = None
            \<and> pw Sync_playwright_exit = None then 0 else 1,
         [Call Sync_playwright_enter None, Call (Chromium_launch True) None, Call New_page None,
          Call (Goto frontend_url) None,
          Call (Expect_to_be_visible heading_locator 30000) (Some e),
          Print (error_message e), Call (Screenshot error_path) (pw (Screenshot error_path)),
          Call Browser_close (pw Browser_close),
          Call Sync_playwright_exit (pw Sync_playwright_exit)])"
  | (heading_passed) e where "\<not> is_Exception e"
      "script_B pw =
        (1,
         [Call Sync_playwright_enter None, Call (Chromium_launch True) None, Call New_page None,
          Call (Goto frontend_url) None,
          Call (Expect_to_be_visible heading_locator 30000) (Some e),
          Call Browser_close (pw Browser_close),
          Call Sync_playwright_exit (pw Sync_playwright_exit)])"
  | (text_caught) e where "is_Exception e"
      "script_B pw =
        (if pw (Screenshot error_path) = None \<and> pw Browser_close = None
            \<and> pw Sync_playwright_exit = None then 0 else 1,
         [Call Sync_playwright_enter None, Call (Chromium_launch True) None, Call New_page None,
          Call (Goto frontend_url) None,
          Call (Expect_to_be_visible heading_locator 30000) None,
          Call (Expect_to_be_visible text_locator 60000) (Some e),
          Print (error_message e), Call (Screenshot error_path) (pw (Screenshot error_path)),
          Call Browser_close (pw Browser_close),
          Call Sync_playwright_exit (pw Sync_playwright_exit)])"
  | (text_passed) e where "\<not> is_Exception e"
      "script_B pw =
        (1,
         [Call Sync_playwright_enter None, Call (Chromium_launch True) None, Call New_page None,
          Call (Goto frontend_url) None,
          Call (Expect_to_be_visible heading_locator 30000) None,
          Call (Expect_to_be_visible text_locator 60000) (Some e),
          Call Browser_close (pw Browser_close),
          Call Sync_playwright_exit (pw Sync_playwright_exit)])"
  | (screenshot_caught) e where "is_Exception e"
      "script_B pw =
        (if pw (Screenshot error_path) = None \<and> pw Browser_close = None
            \<and> pw Sync_playwright_exit = None then 0 else 1,
         [Call Sync_playwright_enter None, Call (Chromium_launch True) None, Call New_page None,
          Call (Goto frontend_url) None,
          Call (Expect_to_be_visible heading_locator 30000) None,
          Call (Expect_to_be_visible text_locator 60000) None,
          Call (Screenshot success_path) (Some e),
          Print (error_message e), Call (Screenshot error_path) (pw (Screenshot error_path)),
          Call Browser_close (pw Browser_close),
          Call Sync_playwright_exit (pw Sync_playwright_exit)])"
  | (screenshot_passed) e where "\<not> is_Exception e"
      "script_B pw =
        (1,
         [Call Sync_playwright_enter None, Call (Chromium_launch True) None, Call New_page None,
          Call (Goto frontend_url) None,
          Call (Expect_to_be_visible heading_locator 30000) None,
          Call (Expect_to_be_visible text_locator 60000) None,
          Call (Screenshot success_path) (Some e),
          Call Browser_close (pw Browser_close),
          Call Sync_playwright_exit (pw Sync_playwright_exit)])"
  | (body_returned)
      "script_B pw =
        (if pw Browser_close = None \<and> pw Sync_playwright_exit = None then 0 else 1,
         [Call Sync_playwright_enter None, Call (Chromium_launch True) None, Call New_page None,
          Call (Goto frontend_url) None,
          Call (Expect_to_be_visible heading_locator 30000) None,
          Call (Expect_to_be_visible text_locator 60000) None,
          Call (Screenshot success_path) None,
          Print success_message,
          Call Browser_close (pw Browser_close),
          Call Sync_playwright_exit (pw Sync_playwright_exit)])"
proof (cases "pw Sync_playwright_enter")
  case (Some e)
  then have "script_B pw = (1, [Call Sync_playwright_enter (Some e)])"
    by (simp add: prog_defs)
  then show thesis by (rule enter_raised)
next
  case enter: None
  show thesis
  proof (cases "pw (Chromium_launch True)")
    case (Some e)
    with enter show thesis
      by (intro launch_raised [of e]) (simp add: prog_defs split: option.splits)
  next
    case launch: None
    show thesis
    proof (cases "pw New_page")
      case (Some e)
      with enter launch show thesis
        by (intro new_page_raised [of e]) (simp add: prog_defs split: option.splits)
    next
      case page: None
      show thesis
      proof (cases "pw (Goto frontend_url)")
        case (Some e)
        note raised = this
        show thesis
        proof (cases "is_Exception e")
          case True
          with enter launch page raised show thesis
            by (intro goto_caught [of e]) (simp_all add: prog_defs split: option.splits)
        next
          case False
          with enter launch page raised show thesis
            by (intro goto_passed [of e]) (simp_all add: prog_defs split: option.splits)
        qed
      next
        case goto: None
        show thesis
        proof (cases "pw (Expect_to_be_visible heading_locator 30000)")
          case (Some e)
          note raised = this
          show thesis
          proof (cases "is_Exception e")
            case True
            with enter launch page goto raised show thesis
              by (intro heading_caught [of e]) (simp_all add: prog_defs split: option.splits)
          next
            case False
            with enter launch page goto raised show thesis
              by (intro heading_passed [of e]) (simp_all add: prog_defs split: option.splits)
          qed
        next
          case heading: None
          show thesis
          proof (cases "pw (Expect_to_be_visible text_locator 60000)")
            case (Some e)
            note raised = this
            show thesis
            proof (cases "is_Exception e")
              case True
              with enter launch page goto heading raised show thesis
                by (intro text_caught [of e]) (simp_all add: prog_defs split: option.splits)
            next
              case False
              with enter launch page goto heading raised show thesis
                by (intro text_passed [of e]) (simp_all add: prog_defs split: option.splits)
            qed
          next
            case shown: None
            show thesis
            proof (cases "pw (Screenshot success_path)")
              case (Some e)
              note raised = this
              show thesis
              proof (cases "is_Exception e")
                case True
                with enter launch page goto heading shown raised show thesis
                  by (intro screenshot_caught [of e]) (simp_all add: prog_defs split: option.splits)
              next
                case False
                with enter launch page goto heading shown raised show thesis
                  by (intro screenshot_passed [of e]) (simp_all add: prog_defs split: option.splits)
              qed
            next
              case None
              with enter launch page goto heading shown show thesis
                by (intro body_returned) (simp add: prog_defs split: option.splits)
            qed
          qed
        qed
      qed
    qed
  qed
qed

lemma paths_distinct: "success_path \<noteq> error_path" "error_path \<noteq> success_path"
  by (simp_all add: success_path_def error_path_def)

lemma locators_distinct: "heading_locator \<noteq> text_locator" "text_locator \<noteq> heading_locator"
  by (simp_all add: heading_locator_def text_locator_def)

lemmas sublist_eval = sublist_code prefix_code

text \<open>
  When \<^verbatim>\<open>browser.new_page()\<close> raises, the \<^verbatim>\<open>try\<close> statement has not been entered:
  the browser that was launched is not closed by the script.
\<close>

lemma new_page_failure_leaves_browser_open:
  assumes "pw Sync_playwright_enter = None" and "pw (Chromium_launch True) = None"
    and "pw New_page = Some e"
  shows "outcomes Browser_close (snd (script_B pw)) = []"
  using assms by (simp add: prog_defs split: option.splits)

text \<open>
  Once the page exists, \<^verbatim>\<open>browser.close()\<close> is executed exactly once, as the last
  step of \<open>run\<close>, however the \<^verbatim>\<open>try\<close> statement ends.
\<close>

lemma browser_closed_once_page_exists:
  assumes "returned (Chromium_launch True) (snd (script_B pw))"
    and "returned New_page (snd (script_B pw))"
  shows "length (outcomes Browser_close (snd (script_B pw))) = 1
       \<and> (\<exists>r x. suffix [Call Browser_close r, Call Sync_playwright_exit x] (snd (script_B pw)))"
  using assms
  by (cases pw rule: script_B_cases) (simp_all add: returned_def suffix_def)

lemma never_Some: "(\<forall>e. Some e \<noteq> x) = (x = None)"
  by (cases x) auto

text \<open>The frontends, run.\<close>

lemma script_B_ok:
  "script_B pw_ok =
     (0, [Call Sync_playwright_enter None, Call (Chromium_launch True) None, Call New_page None,
          Call (Goto frontend_url) None,
          Call (Expect_to_be_visible heading_locator 30000) None,
          Call (Expect_to_be_visible text_locator 60000) None,
          Call (Screenshot success_path) None,
          Print success_message,
          Call Browser_close None, Call Sync_playwright_exit None])"
  by (simp add: prog_defs pw_ok_def)

lemma script_B_no_heading:
  "script_B pw_no_heading =
     (0, [Call Sync_playwright_enter None, Call (Chromium_launch True) None, Call New_page None,
          Call (Goto frontend_url) None,
          Call (Expect_to_be_visible heading_locator 30000)
            (Some (Exn ''Locator expected to be visible'')),
          Print ''An error occurred: Locator expected to be visible'',
          Call (Screenshot error_path) None,
          Call Browser_close None, Call Sync_playwright_exit None])"
  by (simp add: prog_defs pw_no_heading_def error_message_def)

lemma script_B_crashed:
  "script_B pw_crashed =
     (1, [Call Sync_playwright_enter None, Call (Chromium_launch True) None, Call New_page None,
          Call (Goto frontend_url) (Some (Exn ''Page crashed'')),
          Print ''An error occurred: Page crashed'',
          Call (Screenshot error_path) (Some (Exn ''Target closed'')),
          Call Browser_close None, Call Sync_playwright_exit None])"
  by (simp add: prog_defs pw_crashed_def error_message_def)



lemma script_B_interrupted:
  "script_B pw_interrupted =
     (1, [Call Sync_playwright_enter None, Call (Chromium_launch True) None, Call New_page None,
          Call (Goto frontend_url) (Some (Base_exception ''KeyboardInterrupt'')),
          Call Browser_close None, Call Sync_playwright_exit None])"
  by (simp add: prog_defs pw_interrupted_def)

lemma script_B_no_page:
  "script_B pw_no_page =
     (1, [Call Sync_playwright_enter None, Call (Chromium_launch True) None,
          Call New_page (Some (Exn ''Browser has been closed'')),
          Call Sync_playwright_exit None])"
  by (simp add: prog_defs pw_no_page_def)


lemma one_message:
  assumes "returned (Chromium_launch True) (snd (script_B pw))"
    and "returned New_page (snd (script_B pw))"
  shows "(printed (snd (script_B pw)) = []
          \<or> printed (snd (script_B pw)) = [success_message]
          \<or> (\<exists>e. printed (snd (script_B pw)) = [error_message e]))
       \<and> ((\<forall>c e. c \<in> {Goto frontend_url, Expect_to_be_visible heading_locator 30000,
                    Expect_to_be_visible text_locator 60000, Screenshot success_path}
              \<longrightarrow> raised c e (snd (script_B pw)) \<longrightarrow> is_Exception e)
            \<longrightarrow> printed (snd (script_B pw)) = [success_message]
              \<or> (\<exists>e. printed (snd (script_B pw)) = [error_message e]))
       \<and> (\<forall>c e. c \<in> {Goto frontend_url, Expect_to_be_visible heading_locator 30000,
                   Expect_to_be_visible text_locator 60000, Screenshot success_path}
              \<longrightarrow> raised c e (snd (script_B pw)) \<longrightarrow> \<not> is_Exception e
              \<longrightarrow> printed (snd (script_B pw)) = [])
       \<and> (\<forall>r. Call (Screenshot error_path) r \<in> set (snd (script_B pw)) \<longrightarrow>
            (\<exists>e. sublist [Print (error_message e), Call (Screenshot error_path) r]
                    (snd (script_B pw))))"
  using assms
  by (cases pw rule: script_B_cases)
     (auto simp: returned_def raised_def paths_distinct locators_distinct sublist_eval
           split: if_splits)


section \<open>Script B: the claims\<close>

text \<open>
  C1 (as stated, refuted). A run in which the browser launch and the page creation
  succeed can end with a non-zero exit status. In the first run the navigation raises, the
  handler prints the message and its own screenshot raises in its turn: that second
  exception leaves the script. In the second run the navigation raises a
  \<^verbatim>\<open>KeyboardInterrupt\<close>, which \<^verbatim>\<open>except Exception\<close> does not catch: nothing is printed
  and the exception leaves the script.
\<close>

theorem exit_nonzero_after_launch_and_new_page:
  "returned (Chromium_launch True) (snd (script_B pw_crashed))
   \<and> returned New_page (snd (script_B pw_crashed))
   \<and> raised (Goto frontend_url) (Exn ''Page crashed'') (snd (script_B pw_crashed))
   \<and> raised (Screenshot error_path) (Exn ''Target closed'') (snd (script_B pw_crashed))
   \<and> fst (script_B pw_crashed) = 1
   \<and> returned (Chromium_launch True) (snd (script_B pw_interrupted))
   \<and> returned New_page (snd (script_B pw_interrupted))
   \<and> raised (Goto frontend_url) (Base_exception ''KeyboardInterrupt'')
        (snd (script_B pw_interrupted))
   \<and> printed (snd (script_B pw_interrupted)) = []
   \<and> fst (script_B pw_interrupted) \<noteq> 0"
  by (simp add: script_B_crashed script_B_interrupted returned_def raised_def)

text \<open>
  C1 (amended). In every run in which the browser launch and the page creation succeed,
  in which whatever the navigation, the two visibility assertions and the success screenshot
  raise is an instance of \<^verbatim>\<open>Exception\<close>, and in which neither the error screenshot of
  the handler, nor \<^verbatim>\<open>browser.close()\<close>, nor leaving the Playwright context raises, the
  exit status is zero: the exception raised by one of those four steps is caught by the
  handler, which prints \<^verbatim>\<open>An error occurred: \<close> and its message, and does not leave the
  script.
\<close>

theorem exit_zero_when_handler_and_cleanup_return:
  assumes "returned (Chromium_launch True) (snd (script_B pw))"
    and "returned New_page (snd (script_B pw))"
    and "\<forall>c e. c \<in> {Goto frontend_url, Expect_to_be_visible heading_locator 30000,
                    Expect_to_be_visible text_locator 60000, Screenshot success_path}
            \<longrightarrow> raised c e (snd (script_B pw)) \<longrightarrow> is_Exception e"
    and "\<forall>e. \<not> raised (Screenshot error_path) e (snd (script_B pw))"
    and "\<forall>e. \<not> raised Browser_close e (snd (script_B pw))"
    and "\<forall>e. \<not> raised Sync_playwright_exit e (snd (script_B pw))"
  shows "fst (script_B pw) = 0
       \<and> (\<forall>c e. c \<in> {Goto frontend_url, Expect_to_be_visible heading_locator 30000,
                  Expect_to_be_visible text_locator 60000, Screenshot success_path}
             \<longrightarrow> raised c e (snd (script_B pw))
             \<longrightarrow> Print (''An error occurred: '' @ message e) \<in> set (snd (script_B pw)))"
proof -
  let ?t = "snd (script_B pw)"
  have caught: "is_Exception e" if "raised (Goto frontend_url) e ?t
      \<or> raised (Expect_to_be_visible heading_locator 30000) e ?t
      \<or> raised (Expect_to_be_visible text_locator 60000) e ?t
      \<or> raised (Screenshot success_path) e ?t" for e
    using that assms(3) by blast
  have exit0: "fst (script_B pw) = 0"
    using assms(1,2,4,5,6) caught
    by (cases pw rule: script_B_cases)
       (simp_all add: returned_def raised_def paths_distinct never_Some)
  have printed: "Print (''An error occurred: '' @ message e) \<in> set ?t"
    if "c \<in> {Goto frontend_url, Expect_to_be_visible heading_locator 30000,
              Expect_to_be_visible text_locator 60000, Screenshot success_path}"
      and "raised c e ?t" for c e
    using that caught [of e] assms(4)
    by (cases pw rule: script_B_cases)
       (auto simp: raised_def error_message_def locators_distinct paths_distinct
             split: if_splits)
  from exit0 printed show ?thesis by blast
qed

theorem exit_zero_when_handler_and_cleanup_return_witness:
  "returned (Chromium_launch True) (snd (script_B pw_no_heading))
   \<and> returned New_page (snd (script_B pw_no_heading))
   \<and> raised (Expect_to_be_visible heading_locator 30000) (Exn ''Locator expected to be visible'')
        (snd (script_B pw_no_heading))
   \<and> fst (script_B pw_no_heading) = 0
   \<and> Print ''An error occurred: Locator expected to be visible''
        \<in> set (snd (script_B pw_no_heading))"
proof -
  have launched: "returned (Chromium_launch True) (snd (script_B pw_no_heading))"
    and page: "returned New_page (snd (script_B pw_no_heading))"
    and failed: "raised (Expect_to_be_visible heading_locator 30000)
                   (Exn ''Locator expected to be visible'') (snd (script_B pw_no_heading))"
    by (simp_all add: script_B_no_heading returned_def raised_def)
  have caught: "\<forall>c e. c \<in> {Goto frontend_url, Expect_to_be_visible heading_locator 30000,
                    Expect_to_be_visible text_locator 60000, Screenshot success_path}
            \<longrightarrow> raised c e (snd (script_B pw_no_heading)) \<longrightarrow> is_Exception e"
    by (auto simp: script_B_no_heading raised_def split: if_splits)
  have shot: "\<forall>e. \<not> raised (Screenshot error_path) e (snd (script_B pw_no_heading))"
    and closed: "\<forall>e. \<not> raised Browser_close e (snd (script_B pw_no_heading))"
    and left: "\<forall>e. \<not> raised Sync_playwright_exit e (snd (script_B pw_no_heading))"
    by (simp_all add: script_B_no_heading raised_def)
  from exit_zero_when_handler_and_cleanup_return [OF launched page caught shot closed left] failed
  have "fst (script_B pw_no_heading) = 0"
    and "Print (''An error occurred: '' @ message (Exn ''Locator expected to be visible''))
           \<in> set (snd (script_B pw_no_heading))"
    by blast+
  with launched page failed show ?thesis by simp
qed

text \<open>
  C2 (the code on the path the claim misses). The browser launch returns and
  \<^verbatim>\<open>browser.new_page()\<close>, line 5, raises: the exception leaves \<open>run\<close> before the
  \<^verbatim>\<open>try\<close> statement of line 7 is entered, \<^verbatim>\<open>browser.close()\<close> is not executed, and the
  script ends with status 1 and the launched browser unreleased.
\<close>

theorem browser_left_open_when_new_page_raises:
  "returned (Chromium_launch True) (snd (script_B pw_no_page))
   \<and> raised New_page (Exn ''Browser has been closed'') (snd (script_B pw_no_page))
   \<and> outcomes Browser_close (snd (script_B pw_no_page)) = []
   \<and> fst (script_B pw_no_page) = 1"
  by (simp add: script_B_no_page returned_def raised_def)

text \<open>
  C4 (as stated, refuted). On the run where every call returns, the two visibility
  assertions are made on the heading located by role and name and on the text, with 30000
  and 60000 milliseconds; the heading is located without the \<^verbatim>\<open>exact\<close> keyword, so no
  assertion is made on a heading whose exact accessible name is the given one.
\<close>

theorem heading_not_located_by_exact_name:
  "expectations (snd (script_B pw_ok)) =
     [(Get_by_role ''heading'' ''DeFi Borrowed Positions'' None, 30000),
      (Get_by_text ''Total Borrowed (All Chains)'' None, 60000)]
   \<and> (spec_exact_heading_locator, 30000) \<notin> set (expectations (snd (script_B pw_ok)))"
  by (simp add: script_B_ok heading_locator_def text_locator_def spec_exact_heading_locator_def)

text \<open>
  C4 (amended). The visibility assertions of a run are, in this order, a beginning of:
  the heading located by role \<^verbatim>\<open>heading\<close> and name \<^verbatim>\<open>DeFi Borrowed Positions\<close>
  (no exact match asked for), with a timeout of exactly 30 seconds; then the text
  \<^verbatim>\<open>Total Borrowed (All Chains)\<close>, with a timeout of exactly 60 seconds. The first is
  made whenever the navigation returns, and both are made whenever the first one passes.
\<close>

theorem visibility_assertions_in_order:
  "prefix (expectations (snd (script_B pw)))
     [(Get_by_role ''heading'' ''DeFi Borrowed Positions'' None, 30 * 1000),
      (Get_by_text ''Total Borrowed (All Chains)'' None, 60 * 1000)]
   \<and> (returned (Goto frontend_url) (snd (script_B pw)) \<longrightarrow>
        expectations (snd (script_B pw)) \<noteq> [])
   \<and> (returned (Expect_to_be_visible heading_locator 30000) (snd (script_B pw)) \<longrightarrow>
        expectations (snd (script_B pw)) =
          [(Get_by_role ''heading'' ''DeFi Borrowed Positions'' None, 30 * 1000),
           (Get_by_text ''Total Borrowed (All Chains)'' None, 60 * 1000)])"
  by (cases pw rule: script_B_cases)
     (simp_all add: returned_def heading_locator_def text_locator_def)

theorem visibility_assertions_in_order_witness:
  "returned (Expect_to_be_visible heading_locator 30000) (snd (script_B pw_ok))
   \<and> expectations (snd (script_B pw_ok)) =
       [(Get_by_role ''heading'' ''DeFi Borrowed Positions'' None, 30000),
        (Get_by_text ''Total Borrowed (All Chains)'' None, 60000)]"
proof -
  have h: "returned (Expect_to_be_visible heading_locator 30000) (snd (script_B pw_ok))"
    by (simp add: script_B_ok returned_def)
  from visibility_assertions_in_order [of pw_ok] h show ?thesis by simp
qed




text \<open>
  C7. When the navigation, the first or the second visibility assertion raises,
  \<^verbatim>\<open>browser.close()\<close> is executed exactly once, whichever of the three it was; and
  no other of the three steps raises in that run.
\<close>

theorem browser_closed_once_after_failure:
  assumes "c \<in> {Goto frontend_url, Expect_to_be_visible heading_locator 30000,
                 Expect_to_be_visible text_locator 60000}"
    and "raised c e (snd (script_B pw))"
  shows "length (outcomes Browser_close (snd (script_B pw))) = 1
       \<and> (\<forall>c' e'. c' \<in> {Goto frontend_url, Expect_to_be_visible heading_locator 30000,
                 Expect_to_be_visible text_locator 60000} \<longrightarrow> raised c' e' (snd (script_B pw))
             \<longrightarrow> c' = c \<and> e' = e)"
  using assms
  by (cases pw rule: script_B_cases) (auto simp: raised_def locators_distinct split: if_splits)

theorem browser_closed_once_after_failure_witness:
  "raised (Goto frontend_url) (Exn ''Page crashed'') (snd (script_B pw_crashed))
   \<and> length (outcomes Browser_close (snd (script_B pw_crashed))) = 1"
proof -
  have member: "Goto frontend_url \<in> {Goto frontend_url, Expect_to_be_visible heading_locator 30000,
                 Expect_to_be_visible text_locator 60000}"
    by simp
  have failed: "raised (Goto frontend_url) (Exn ''Page crashed'') (snd (script_B pw_crashed))"
    by (simp add: script_B_crashed raised_def)
  from browser_closed_once_after_failure [OF member failed] failed show ?thesis by blast
qed

text \<open>
  C8 (as stated, refuted). The launch and the page creation succeed and the navigation
  raises a \<^verbatim>\<open>KeyboardInterrupt\<close>: it passes \<^verbatim>\<open>except Exception\<close>, and neither the
  success message nor an error line is printed.
\<close>

theorem no_message_when_interrupted:
  "returned (Chromium_launch True) (snd (script_B pw_interrupted))
   \<and> returned New_page (snd (script_B pw_interrupted))
   \<and> raised (Goto frontend_url) (Base_exception ''KeyboardInterrupt'')
        (snd (script_B pw_interrupted))
   \<and> printed (snd (script_B pw_interrupted)) = []
   \<and> Print ''Screenshot taken successfully.'' \<notin> set (snd (script_B pw_interrupted))
   \<and> Print ''An error occurred: KeyboardInterrupt'' \<notin> set (snd (script_B pw_interrupted))"
  by (simp add: script_B_interrupted returned_def raised_def)

text \<open>
  C8 (amended). In every run in which the browser launch and the page creation succeed,
  at most one line is printed, \<^verbatim>\<open>Screenshot taken successfully.\<close> or a line beginning
  \<^verbatim>\<open>An error occurred: \<close>, never both (the success message does not begin so); exactly
  one is printed whenever whatever the navigation, the two assertions and the success
  screenshot raise is an instance of \<^verbatim>\<open>Exception\<close>, and none when one of them
  raises anything else. The error line is printed immediately before the error screenshot
  is attempted, whether that screenshot returns or raises.
\<close>

theorem at_most_one_message_printed:
  assumes "returned (Chromium_launch True) (snd (script_B pw))"
    and "returned New_page (snd (script_B pw))"
  shows "(printed (snd (script_B pw)) = []
          \<or> printed (snd (script_B pw)) = [''Screenshot taken successfully.'']
          \<or> (\<exists>e. printed (snd (script_B pw)) = [''An error occurred: '' @ message e]))
       \<and> ((\<forall>c e. c \<in> {Goto frontend_url, Expect_to_be_visible heading_locator 30000,
                    Expect_to_be_visible text_locator 60000, Screenshot success_path}
              \<longrightarrow> raised c e (snd (script_B pw)) \<longrightarrow> is_Exception e)
            \<longrightarrow> printed (snd (script_B pw)) = [''Screenshot taken successfully.'']
              \<or> (\<exists>e. printed (snd (script_B pw)) = [''An error occurred: '' @ message e]))
       \<and> (\<forall>c e. c \<in> {Goto frontend_url, Expect_to_be_visible heading_locator 30000,
                   Expect_to_be_visible text_locator 60000, Screenshot success_path}
              \<longrightarrow> raised c e (snd (script_B pw)) \<longrightarrow> \<not> is_Exception e
              \<longrightarrow> printed (snd (script_B pw)) = [])
       \<and> (\<forall>r. Call (Screenshot ''/app/jules-scratch/verification/error.png'') r \<in> set (snd (script_B pw)) \<longrightarrow>
            (\<exists>e. sublist [Print (''An error occurred: '' @ message e), Call (Screenshot ''/app/jules-scratch/verification/error.png'') r]
                    (snd (script_B pw))))
       \<and> \<not> prefix ''An error occurred: '' ''Screenshot taken successfully.''"
proof -
  have "\<not> prefix ''An error occurred: '' ''Screenshot taken successfully.''"
    by simp
  with one_message [OF assms,
      unfolded success_message_def error_message_def error_path_def]
  show ?thesis by blast
qed

theorem at_most_one_message_printed_witness:
  "returned (Chromium_launch True) (snd (script_B pw_crashed))
   \<and> returned New_page (snd (script_B pw_crashed))
   \<and> Call (Screenshot ''/app/jules-scratch/verification/error.png'') (Some (Exn ''Target closed'')) \<in> set (snd (script_B pw_crashed))
   \<and> printed (snd (script_B pw_crashed)) = [''An error occurred: Page crashed'']
   \<and> (\<exists>e. sublist [Print (''An error occurred: '' @ message e),
                    Call (Screenshot ''/app/jules-scratch/verification/error.png'') (Some (Exn ''Target closed''))]
              (snd (script_B pw_crashed)))"
proof -
  have launched: "returned (Chromium_launch True) (snd (script_B pw_crashed))"
    and page: "returned New_page (snd (script_B pw_crashed))"
    by (simp_all add: script_B_crashed returned_def)
  have shot: "Call (Screenshot ''/app/jules-scratch/verification/error.png'') (Some (Exn ''Target closed''))
                \<in> set (snd (script_B pw_crashed))"
    and said: "printed (snd (script_B pw_crashed)) = [''An error occurred: Page crashed'']"
    by (simp_all add: script_B_crashed error_path_def)
  from at_most_one_message_printed [OF launched page] shot
  have "\<exists>e. sublist [Print (''An error occurred: '' @ message e),
                    Call (Screenshot ''/app/jules-scratch/verification/error.png'') (Some (Exn ''Target closed''))]
              (snd (script_B pw_crashed))"
    by blast
  with launched page shot said show ?thesis by blast
qed




end
